theory Spec2Isabelle
  imports Complex_Main
begin

section \<open>JavaScript values read by the library\<close>

text \<open>
  The library is plain JavaScript (\<^verbatim>\<open>gas/Code.gs\<close>). The values it inspects at run time
  are the result of \<^verbatim>\<open>JSON.parse\<close> on an upstream body and the arguments a caller passes
  to \<^verbatim>\<open>query\<close>, \<^verbatim>\<open>setSystemPrompt\<close> and \<^verbatim>\<open>createAgent\<close>. They are modelled by a tree
  of JSON-shaped values plus \<^verbatim>\<open>undefined\<close>. Numbers are finite and exact; the two zeros
  of a double coincide in \<open>Num 0\<close>, which is the only falsy number JSON text can denote.
\<close>

datatype jsval =
    Undefined
  | Null
  | Bool bool
  | Num rat
  | Str string
  | Arr "jsval list"
  | Obj "(string \<times> jsval) list"

text \<open>An exception is an \<^verbatim>\<open>Error\<close> object; only its \<^verbatim>\<open>message\<close> is ever read.\<close>

datatype exn = Error string

text \<open>\<^verbatim>\<open>if (v)\<close>, \<^verbatim>\<open>!v\<close> and \<^verbatim>\<open>v || d\<close>: every value is truthy except \<^verbatim>\<open>undefined\<close>,
  \<^verbatim>\<open>null\<close>, \<^verbatim>\<open>false\<close>, \<^verbatim>\<open>0\<close> and the empty string.\<close>

fun truthy :: "jsval \<Rightarrow> bool" where
  "truthy Undefined = False"
| "truthy Null = False"
| "truthy (Bool b) = b"
| "truthy (Num n) = (n \<noteq> 0)"
| "truthy (Str s) = (s \<noteq> [])"
| "truthy (Arr xs) = True"
| "truthy (Obj kvs) = True"

text \<open>\<^verbatim>\<open>typeof v === 'string'\<close>.\<close>

fun is_string :: "jsval \<Rightarrow> bool" where
  "is_string (Str s) = True"
| "is_string v = False"

text \<open>The test of the optional chaining operator \<^verbatim>\<open>?.\<close>: the operand is
  \<^verbatim>\<open>undefined\<close> or \<^verbatim>\<open>null\<close>.\<close>

fun nullish :: "jsval \<Rightarrow> bool" where
  "nullish Undefined = True"
| "nullish Null = True"
| "nullish v = False"

record message =
  role :: string
  content :: jsval

text \<open>The \<^verbatim>\<open>config\<close> object, typed as \<^verbatim>\<open>ProviderConfig\<close> in \<^verbatim>\<open>src/types.ts\<close> and the JSDoc
  of \<^verbatim>\<open>createAgent\<close>: every field optional, \<open>None\<close> for an absent one.\<close>

record config =
  apiKey :: "string option"
  model :: "string option"
  systemPrompt :: "string option"
  temperature :: "rat option"
  max_tokens :: "rat option"
  messages :: "message list option"
  baseURL :: "string option"
  referer :: "string option"
  title :: "string option"

text \<open>The object handed to \<^verbatim>\<open>JSON.stringify\<close> as the request body: the chat-completion
  shape of five providers and the \<^verbatim>\<open>generateContent\<close> shape of Google AI.\<close>

datatype payload =
    ChatCompletion (body_model: string) (body_messages: "message list")
                   (body_temperature: rat) (body_max_tokens: rat)
  | GenerateContent (body_text: string) (gen_temperature: rat) (gen_maxOutputTokens: rat)

record http_request =
  url :: string
  http_method :: string
  headers :: "(string \<times> string) list"
  body :: payload

text \<open>
  The host runtime of one call: the script property store
  (\<^verbatim>\<open>PropertiesService.getScriptProperties().getProperty\<close>), the HTTP transport
  (\<^verbatim>\<open>UrlFetchApp.fetch\<close> followed by \<^verbatim>\<open>getContentText\<close>), \<^verbatim>\<open>JSON.parse\<close>, and the texts
  the engine chooses: the rendering of a number in a template literal and the messages of
  the two \<^verbatim>\<open>TypeError\<close>s the library can provoke. Each of the first three either throws
  (\<open>Inl\<close>) or returns (\<open>Inr\<close>); nothing is assumed about them.
\<close>

record host =
  getProperty :: "string \<Rightarrow> exn + string option"
  fetch :: "http_request \<Rightarrow> exn + string"
  JSON_parse :: "string \<Rightarrow> exn + jsval"
  number_to_string :: "rat \<Rightarrow> string"
  cannot_read :: "jsval \<Rightarrow> string \<Rightarrow> string"
  not_a_function :: string

text \<open>A \<^verbatim>\<open>ProviderResponse\<close>: \<^verbatim>\<open>{status, response}\<close> or \<^verbatim>\<open>{status, error}\<close>; a property the
  object literal does not set is \<open>None\<close>.\<close>

record provider_response =
  status :: nat
  response :: "jsval option"
  error :: "string option"

definition ok_response :: "jsval \<Rightarrow> provider_response" where
  "ok_response v = \<lparr>status = 200, response = Some v, error = None\<rparr>"

definition error_response :: "nat \<Rightarrow> string \<Rightarrow> provider_response" where
  "error_response st msg = \<lparr>status = st, response = None, error = Some msg\<rparr>"

subsection \<open>Property reads and template literals\<close>

text \<open>
  \<^verbatim>\<open>v.k\<close> for the keys this program reads (\<^verbatim>\<open>error\<close>, \<^verbatim>\<open>message\<close>, \<^verbatim>\<open>choices\<close>, \<^verbatim>\<open>content\<close>,
  \<^verbatim>\<open>candidates\<close>, \<^verbatim>\<open>parts\<close>, \<^verbatim>\<open>text\<close>): none of them is a property of a built-in
  prototype, so the read yields the own property of an object and \<^verbatim>\<open>undefined\<close> on
  anything else, and throws a \<^verbatim>\<open>TypeError\<close> on \<^verbatim>\<open>undefined\<close> and \<^verbatim>\<open>null\<close>.
\<close>

fun js_get :: "host \<Rightarrow> jsval \<Rightarrow> string \<Rightarrow> exn + jsval" where
  "js_get h Undefined k = Inl (Error (cannot_read h Undefined k))"
| "js_get h Null k = Inl (Error (cannot_read h Null k))"
| "js_get h (Obj kvs) k = Inr (case map_of kvs k of Some v \<Rightarrow> v | None \<Rightarrow> Undefined)"
| "js_get h v k = Inr Undefined"

text \<open>\<^verbatim>\<open>v[0]\<close>: the first element of an array, the first code unit of a string, the own
  property \<^verbatim>\<open>"0"\<close> of an object; \<^verbatim>\<open>undefined\<close> when there is none.\<close>

fun js_index0 :: "host \<Rightarrow> jsval \<Rightarrow> exn + jsval" where
  "js_index0 h Undefined = Inl (Error (cannot_read h Undefined ''0''))"
| "js_index0 h Null = Inl (Error (cannot_read h Null ''0''))"
| "js_index0 h (Arr xs) = Inr (case xs of [] \<Rightarrow> Undefined | x # _ \<Rightarrow> x)"
| "js_index0 h (Str s) = Inr (case s of [] \<Rightarrow> Undefined | c # _ \<Rightarrow> Str [c])"
| "js_index0 h (Obj kvs) = Inr (case map_of kvs ''0'' of Some v \<Rightarrow> v | None \<Rightarrow> Undefined)"
| "js_index0 h v = Inr Undefined"

text \<open>\<^verbatim>\<open>`${v}`\<close>: the string conversion of a template literal. An array joins the
  conversions of its elements with commas, \<^verbatim>\<open>undefined\<close> and \<^verbatim>\<open>null\<close> elements giving the
  empty string.\<close>

fun js_to_string :: "host \<Rightarrow> jsval \<Rightarrow> string"
  and js_join :: "host \<Rightarrow> jsval list \<Rightarrow> string" where
  "js_to_string h Undefined = ''undefined''"
| "js_to_string h Null = ''null''"
| "js_to_string h (Bool b) = (if b then ''true'' else ''false'')"
| "js_to_string h (Num n) = number_to_string h n"
| "js_to_string h (Str s) = s"
| "js_to_string h (Arr xs) = js_join h xs"
| "js_to_string h (Obj kvs) = ''[object Object]''"
| "js_join h [] = []"
| "js_join h [x] = (if nullish x then [] else js_to_string h x)"
| "js_join h (x # y # ys) =
     (if nullish x then [] else js_to_string h x) @ '','' @ js_join h (y # ys)"

text \<open>\<^verbatim>\<open>a || d\<close> on an optional string and on an optional number.\<close>

definition or_str :: "string option \<Rightarrow> string \<Rightarrow> string" where
  "or_str a d = (case a of None \<Rightarrow> d | Some s \<Rightarrow> if s = [] then d else s)"

definition or_num :: "rat option \<Rightarrow> rat \<Rightarrow> rat" where
  "or_num a d = (case a of None \<Rightarrow> d | Some n \<Rightarrow> if n = 0 then d else n)"

section \<open>Providers\<close>

text \<open>
  Every provider class has one method, \<^verbatim>\<open>generateResponse(input, config)\<close>. It may throw
  only while it resolves the API key (the property store is read outside the method's
  \<^verbatim>\<open>try\<close>); otherwise it returns a \<^verbatim>\<open>ProviderResponse\<close>. The model returns, with the
  response, the list of requests handed to \<^verbatim>\<open>UrlFetchApp.fetch\<close>, in order.
\<close>

type_synonym provider_result = "exn + (http_request list \<times> provider_response)"

text \<open>\<^verbatim>\<open>config.apiKey || PropertiesService.getScriptProperties().getProperty(name)\<close>: the
  store is consulted only when the configured key is falsy.\<close>

definition resolve_key :: "host \<Rightarrow> config \<Rightarrow> string \<Rightarrow> exn + string option" where
  "resolve_key h cfg name =
     (case apiKey cfg of
        Some k \<Rightarrow> if k \<noteq> [] then Inr (Some k) else getProperty h name
      | None \<Rightarrow> getProperty h name)"

text \<open>\<^verbatim>\<open>result.choices[0]?.message?.content\<close>: the reads of \<^verbatim>\<open>choices\<close> and of its index
  \<^verbatim>\<open>0\<close> are not optional; a nullish link ends the rest of the chain with
  \<^verbatim>\<open>undefined\<close>.\<close>

definition chat_text :: "host \<Rightarrow> jsval \<Rightarrow> exn + jsval" where
  "chat_text h result =
     (case js_get h result ''choices'' of
        Inl e \<Rightarrow> Inl e
      | Inr choices \<Rightarrow>
          (case js_index0 h choices of
             Inl e \<Rightarrow> Inl e
           | Inr c0 \<Rightarrow>
               if nullish c0 then Inr Undefined
               else (case js_get h c0 ''message'' of
                       Inl e \<Rightarrow> Inl e
                     | Inr m \<Rightarrow> if nullish m then Inr Undefined else js_get h m ''content'')))"

text \<open>\<^verbatim>\<open>result.candidates[0]?.content?.parts[0]?.text\<close>: here the reads of
  \<^verbatim>\<open>candidates\<close>, of its index \<^verbatim>\<open>0\<close>, and of index \<^verbatim>\<open>0\<close> of \<^verbatim>\<open>parts\<close> are not optional.\<close>

definition google_text :: "host \<Rightarrow> jsval \<Rightarrow> exn + jsval" where
  "google_text h result =
     (case js_get h result ''candidates'' of
        Inl e \<Rightarrow> Inl e
      | Inr candidates \<Rightarrow>
          (case js_index0 h candidates of
             Inl e \<Rightarrow> Inl e
           | Inr c0 \<Rightarrow>
               if nullish c0 then Inr Undefined
               else (case js_get h c0 ''content'' of
                       Inl e \<Rightarrow> Inl e
                     | Inr c \<Rightarrow>
                         if nullish c then Inr Undefined
                         else (case js_get h c ''parts'' of
                                 Inl e \<Rightarrow> Inl e
                               | Inr parts \<Rightarrow>
                                   (case js_index0 h parts of
                                      Inl e \<Rightarrow> Inl e
                                    | Inr p0 \<Rightarrow>
                                        if nullish p0 then Inr Undefined
                                        else js_get h p0 ''text'')))))"

text \<open>
  The body of the \<^verbatim>\<open>try\<close> block, the same in the six classes up to the path of the text
  and three string literals: fetch, parse, report an upstream \<^verbatim>\<open>error\<close> field as status
  500, otherwise return status 200 with \<^verbatim>\<open>text || fallback\<close>.
\<close>

definition try_block ::
  "host \<Rightarrow> http_request \<Rightarrow> (host \<Rightarrow> jsval \<Rightarrow> exn + jsval) \<Rightarrow> string \<Rightarrow> string
    \<Rightarrow> exn + provider_response" where
  "try_block h req text_of api_error fallback =
     (case fetch h req of
        Inl e \<Rightarrow> Inl e
      | Inr content_text \<Rightarrow>
          (case JSON_parse h content_text of
             Inl e \<Rightarrow> Inl e
           | Inr result \<Rightarrow>
               (case js_get h result ''error'' of
                  Inl e \<Rightarrow> Inl e
                | Inr err \<Rightarrow>
                    if truthy err then
                      (case js_get h err ''message'' of
                         Inl e \<Rightarrow> Inl e
                       | Inr m \<Rightarrow> Inr (error_response 500 (api_error @ js_to_string h m)))
                    else
                      (case text_of h result of
                         Inl e \<Rightarrow> Inl e
                       | Inr t \<Rightarrow> Inr (ok_response (if truthy t then t else Str fallback))))))"

text \<open>The \<^verbatim>\<open>try\<close> with its \<^verbatim>\<open>catch\<close>: whatever is thrown becomes status 500 with the
  class's prefix before the exception's message.\<close>

definition try_catch ::
  "host \<Rightarrow> http_request \<Rightarrow> (host \<Rightarrow> jsval \<Rightarrow> exn + jsval) \<Rightarrow> string \<Rightarrow> string \<Rightarrow> string
    \<Rightarrow> provider_response" where
  "try_catch h req text_of api_error fallback provider_error =
     (case try_block h req text_of api_error fallback of
        Inl (Error msg) \<Rightarrow> error_response 500 (provider_error @ msg)
      | Inr r \<Rightarrow> r)"

definition bearer_headers :: "string \<Rightarrow> (string \<times> string) list" where
  "bearer_headers key =
     [(''Authorization'', ''Bearer '' @ key), (''Content-Type'', ''application/json'')]"

definition OpenAIProvider_generateResponse :: "host \<Rightarrow> string \<Rightarrow> config \<Rightarrow> provider_result" where
  "OpenAIProvider_generateResponse h input cfg =
     (case resolve_key h cfg ''OPENAI_API_KEY'' of
        Inl e \<Rightarrow> Inl e
      | Inr None \<Rightarrow> Inr ([], error_response 400 ''OpenAI API key is required.'')
      | Inr (Some key) \<Rightarrow>
          if key = [] then Inr ([], error_response 400 ''OpenAI API key is required.'')
          else
            let req = \<lparr>url = ''https://api.openai.com/v1/chat/completions'',
                       http_method = ''post'',
                       headers = bearer_headers key,
                       body = ChatCompletion (or_str (model cfg) ''gpt-3.5-turbo'')
                                [\<lparr>role = ''user'', content = Str input\<rparr>]
                                (or_num (temperature cfg) (7 / 10))
                                (or_num (max_tokens cfg) 100)\<rparr>
            in Inr ([req], try_catch h req chat_text ''OpenAI API error: ''
                             ''No response from OpenAI.'' ''OpenAIProvider error: ''))"

definition OpenAILikeProvider_generateResponse :: "host \<Rightarrow> string \<Rightarrow> config \<Rightarrow> provider_result" where
  "OpenAILikeProvider_generateResponse h input cfg =
     (case resolve_key h cfg ''OPENAI_LIKE_API_KEY'' of
        Inl e \<Rightarrow> Inl e
      | Inr None \<Rightarrow> Inr ([], error_response 400 ''API key is required.'')
      | Inr (Some key) \<Rightarrow>
          if key = [] then Inr ([], error_response 400 ''API key is required.'')
          else
            (case baseURL cfg of
               None \<Rightarrow> Inr ([], error_response 400 ''Base URL is required for OpenAILike provider.'')
             | Some base \<Rightarrow>
                 if base = [] then
                   Inr ([], error_response 400 ''Base URL is required for OpenAILike provider.'')
                 else
                   let req = \<lparr>url = base @ ''/chat/completions'',
                              http_method = ''post'',
                              headers = bearer_headers key,
                              body = ChatCompletion (or_str (model cfg) ''gpt-3.5-turbo'')
                                       (case messages cfg of
                                          Some ms \<Rightarrow> ms
                                        | None \<Rightarrow> [\<lparr>role = ''user'', content = Str input\<rparr>])
                                       (or_num (temperature cfg) (7 / 10))
                                       (or_num (max_tokens cfg) 100)\<rparr>
                   in Inr ([req], try_catch h req chat_text ''API error: ''
                                    ''No response from API.'' ''OpenAILikeProvider error: '')))"

definition GoogleAIProvider_generateResponse :: "host \<Rightarrow> string \<Rightarrow> config \<Rightarrow> provider_result" where
  "GoogleAIProvider_generateResponse h input cfg =
     (case resolve_key h cfg ''GOOGLEAI_API_KEY'' of
        Inl e \<Rightarrow> Inl e
      | Inr None \<Rightarrow> Inr ([], error_response 400 ''Google AI API key is required.'')
      | Inr (Some key) \<Rightarrow>
          if key = [] then Inr ([], error_response 400 ''Google AI API key is required.'')
          else
            let req = \<lparr>url = ''https://generativelanguage.googleapis.com/v1/models/''
                               @ or_str (model cfg) ''gemini-2.0-flash'' @ '':generateContent'',
                       http_method = ''post'',
                       headers = [(''Content-Type'', ''application/json''),
                                  (''x-goog-api-key'', key)],
                       body = GenerateContent input
                                (or_num (temperature cfg) (7 / 10))
                                (or_num (max_tokens cfg) 100)\<rparr>
            in Inr ([req], try_catch h req google_text ''Google AI API error: ''
                             ''No response from Google AI.'' ''GoogleAIProvider error: ''))"

definition DeepSeekProvider_generateResponse :: "host \<Rightarrow> string \<Rightarrow> config \<Rightarrow> provider_result" where
  "DeepSeekProvider_generateResponse h input cfg =
     (case resolve_key h cfg ''DEEPSEEK_API_KEY'' of
        Inl e \<Rightarrow> Inl e
      | Inr None \<Rightarrow> Inr ([], error_response 400 ''DeepSeek API key is required.'')
      | Inr (Some key) \<Rightarrow>
          if key = [] then Inr ([], error_response 400 ''DeepSeek API key is required.'')
          else
            let req = \<lparr>url = ''https://api.deepseek.com/v1/chat/completions'',
                       http_method = ''post'',
                       headers = bearer_headers key,
                       body = ChatCompletion (or_str (model cfg) ''deepseek-chat'')
                                [\<lparr>role = ''user'', content = Str input\<rparr>]
                                (or_num (temperature cfg) (7 / 10))
                                (or_num (max_tokens cfg) 100)\<rparr>
            in Inr ([req], try_catch h req chat_text ''DeepSeek API error: ''
                             ''No response from DeepSeek.'' ''DeepSeekProvider error: ''))"

definition OpenRouterProvider_generateResponse :: "host \<Rightarrow> string \<Rightarrow> config \<Rightarrow> provider_result" where
  "OpenRouterProvider_generateResponse h input cfg =
     (case resolve_key h cfg ''OPENROUTER_API_KEY'' of
        Inl e \<Rightarrow> Inl e
      | Inr None \<Rightarrow> Inr ([], error_response 400 ''OpenRouter API key is required.'')
      | Inr (Some key) \<Rightarrow>
          if key = [] then Inr ([], error_response 400 ''OpenRouter API key is required.'')
          else
            let req = \<lparr>url = ''https://openrouter.ai/api/v1/chat/completions'',
                       http_method = ''post'',
                       headers = [(''Authorization'', ''Bearer '' @ key),
                                  (''HTTP-Referer'', or_str (referer cfg) ''https://script.google.com''),
                                  (''X-Title'', or_str (title cfg) ''GAS Agent''),
                                  (''Content-Type'', ''application/json'')],
                       body = ChatCompletion (or_str (model cfg) ''openai/gpt-3.5-turbo'')
                                [\<lparr>role = ''user'', content = Str input\<rparr>]
                                (or_num (temperature cfg) (7 / 10))
                                (or_num (max_tokens cfg) 100)\<rparr>
            in Inr ([req], try_catch h req chat_text ''OpenRouter API error: ''
                             ''No response from OpenRouter.'' ''OpenRouterProvider error: ''))"

definition GroqProvider_generateResponse :: "host \<Rightarrow> string \<Rightarrow> config \<Rightarrow> provider_result" where
  "GroqProvider_generateResponse h input cfg =
     (case resolve_key h cfg ''GROQ_API_KEY'' of
        Inl e \<Rightarrow> Inl e
      | Inr None \<Rightarrow> Inr ([], error_response 400 ''Groq API key is required.'')
      | Inr (Some key) \<Rightarrow>
          if key = [] then Inr ([], error_response 400 ''Groq API key is required.'')
          else
            let req = \<lparr>url = ''https://api.groq.com/openai/v1/chat/completions'',
                       http_method = ''post'',
                       headers = bearer_headers key,
                       body = ChatCompletion (or_str (model cfg) ''mixtral-8x7b-32768'')
                                [\<lparr>role = ''user'', content = Str input\<rparr>]
                                (or_num (temperature cfg) (7 / 10))
                                (or_num (max_tokens cfg) 100)\<rparr>
            in Inr ([req], try_catch h req chat_text ''Groq API error: ''
                             ''No response from Groq.'' ''GroqProvider error: ''))"

text \<open>The provider table built by the \<^verbatim>\<open>GASAgent\<close> constructor: its six own properties.\<close>

datatype provider_kind = OpenAI | GoogleAI | DeepSeek | OpenRouter | Groq | OpenAILike

definition providers :: "string \<Rightarrow> provider_kind option" where
  "providers name =
     (if name = ''OpenAI'' then Some OpenAI
      else if name = ''GoogleAI'' then Some GoogleAI
      else if name = ''DeepSeek'' then Some DeepSeek
      else if name = ''OpenRouter'' then Some OpenRouter
      else if name = ''Groq'' then Some Groq
      else if name = ''OpenAILike'' then Some OpenAILike
      else None)"

fun generateResponse :: "provider_kind \<Rightarrow> host \<Rightarrow> string \<Rightarrow> config \<Rightarrow> provider_result" where
  "generateResponse OpenAI = OpenAIProvider_generateResponse"
| "generateResponse GoogleAI = GoogleAIProvider_generateResponse"
| "generateResponse DeepSeek = DeepSeekProvider_generateResponse"
| "generateResponse OpenRouter = OpenRouterProvider_generateResponse"
| "generateResponse Groq = GroqProvider_generateResponse"
| "generateResponse OpenAILike = OpenAILikeProvider_generateResponse"

section \<open>Registry, agents and the object store\<close>

text \<open>
  Agents, arrays and message objects are JavaScript objects with identity: the registry
  holds references to agents, an agent holds a reference to its history array, and the
  array holds references to message objects. The store keeps one list per kind of object
  and a reference is an index into it; objects are only ever added at the end, so a
  reference handed out stays valid. The closure variables \<^verbatim>\<open>config\<close> and
  \<^verbatim>\<open>providerName\<close> of \<^verbatim>\<open>createAgent\<close> are kept with the agent that captured them.
\<close>

record agent =
  messageHistory :: nat
  agent_systemPrompt :: string
  agent_config :: config
  agent_providerName :: string

record store =
  agents :: "string \<rightharpoonup> nat"
  agent_objs :: "agent list"
  array_objs :: "nat list list"
  message_objs :: "message list"

text \<open>\<^verbatim>\<open>new GASAgent()\<close>: no agents; the provider table is the constant \<open>providers\<close>.\<close>

definition new_GASAgent :: store where
  "new_GASAgent = \<lparr>agents = Map.empty, agent_objs = [], array_objs = [], message_objs = []\<rparr>"

text \<open>
  \<^verbatim>\<open>this.agents\<close> and \<^verbatim>\<open>this.providers\<close> are plain objects, so \<^verbatim>\<open>obj[key]\<close> also finds
  what they inherit from \<^verbatim>\<open>Object.prototype\<close>; each of these inherited values is a
  function or an object, hence truthy.
\<close>

definition object_prototype_keys :: "string list" where
  "object_prototype_keys =
     [''constructor'', ''__defineGetter__'', ''__defineSetter__'', ''hasOwnProperty'',
      ''__lookupGetter__'', ''__lookupSetter__'', ''isPrototypeOf'',
      ''propertyIsEnumerable'', ''toString'', ''valueOf'', ''__proto__'',
      ''toLocaleString'']"

definition inherited :: "string \<Rightarrow> bool" where
  "inherited key = (key \<in> set object_prototype_keys)"

text \<open>
  \<^verbatim>\<open>createAgent(agentName, providerName, config)\<close>: three guards that throw, in this
  order, then the agent object with an empty history array and
  \<^verbatim>\<open>config.systemPrompt || ''\<close>, stored under the name and returned.
\<close>

definition createAgent :: "store \<Rightarrow> jsval \<Rightarrow> string \<Rightarrow> config \<Rightarrow> exn + (nat \<times> store)" where
  "createAgent w agentName providerName cfg =
     (if \<not> truthy agentName \<or> \<not> is_string agentName then
        Inl (Error ''Agent name must be a non-empty string.'')
      else
        (case agentName of
           Str name \<Rightarrow>
             if agents w name \<noteq> None \<or> inherited name then
               Inl (Error (''Agent '' @ [CHR 0x27] @ name @ [CHR 0x27] @ '' already exists.''))
             else if \<not> (providers providerName \<noteq> None \<or> inherited providerName) then
               Inl (Error (''Provider '' @ [CHR 0x27] @ providerName @ [CHR 0x27]
                           @ '' not registered.''))
             else
               let a = length (agent_objs w);
                   ag = \<lparr>messageHistory = length (array_objs w),
                         agent_systemPrompt = or_str (systemPrompt cfg) [],
                         agent_config = cfg,
                         agent_providerName = providerName\<rparr>
               in Inr (a, w\<lparr>agents := (agents w)(name \<mapsto> a),
                             agent_objs := agent_objs w @ [ag],
                             array_objs := array_objs w @ [[]]\<rparr>)
         | _ \<Rightarrow> Inl (Error ''Agent name must be a non-empty string.'')))"

text \<open>The messages an agent's history array refers to, in order.\<close>

definition history_of :: "store \<Rightarrow> nat \<Rightarrow> message list" where
  "history_of w a =
     map (\<lambda>m. message_objs w ! m) (array_objs w ! messageHistory (agent_objs w ! a))"

text \<open>The messages any array refers to: what a caller sees in an array it holds.\<close>

definition read_array :: "store \<Rightarrow> nat \<Rightarrow> message list" where
  "read_array w r = map (\<lambda>m. message_objs w ! m) (array_objs w ! r)"

text \<open>\<^verbatim>\<open>setSystemPrompt(prompt)\<close>: throws unless \<^verbatim>\<open>typeof prompt === 'string'\<close>.\<close>

definition setSystemPrompt :: "nat \<Rightarrow> jsval \<Rightarrow> store \<Rightarrow> exn + store" where
  "setSystemPrompt a prompt w =
     (case prompt of
        Str p \<Rightarrow> Inr (w\<lparr>agent_objs := (agent_objs w)[a := (agent_objs w ! a)\<lparr>agent_systemPrompt := p\<rparr>]\<rparr>)
      | _ \<Rightarrow> Inl (Error ''System prompt must be a string.''))"

text \<open>\<^verbatim>\<open>clearHistory()\<close>: \<^verbatim>\<open>agent.messageHistory = []\<close>, a new empty array.\<close>

definition clearHistory :: "nat \<Rightarrow> store \<Rightarrow> store" where
  "clearHistory a w =
     w\<lparr>agent_objs := (agent_objs w)[a := (agent_objs w ! a)\<lparr>messageHistory := length (array_objs w)\<rparr>],
       array_objs := array_objs w @ [[]]\<rparr>"

text \<open>\<^verbatim>\<open>getHistory()\<close>: \<^verbatim>\<open>[...agent.messageHistory]\<close>, a new array holding the same
  references; the reference to the new array is returned.\<close>

definition getHistory :: "nat \<Rightarrow> store \<Rightarrow> nat \<times> store" where
  "getHistory a w =
     (length (array_objs w),
      w\<lparr>array_objs := array_objs w @ [array_objs w ! messageHistory (agent_objs w ! a)]\<rparr>)"

text \<open>What \<^verbatim>\<open>query\<close> does that can be observed from outside, in order: the call of a
  provider's \<^verbatim>\<open>generateResponse\<close> and the requests that call hands to the transport.\<close>

datatype event = Invoke provider_kind string config | UrlFetch http_request

text \<open>\<^verbatim>\<open>agent.messageHistory.push({role: 'user', ...}, {role: 'assistant', ...})\<close>: two new
  message objects, their references appended to the agent's array in place.\<close>

definition push_turn :: "nat \<Rightarrow> jsval \<Rightarrow> jsval \<Rightarrow> store \<Rightarrow> store" where
  "push_turn a input reply w =
     (let n = length (message_objs w);
          r = messageHistory (agent_objs w ! a)
      in w\<lparr>message_objs := message_objs w @ [\<lparr>role = ''user'', content = input\<rparr>,
                                               \<lparr>role = ''assistant'', content = reply\<rparr>],
           array_objs := (array_objs w)[r := array_objs w ! r @ [n, Suc n]]\<rparr>)"

text \<open>The \<^verbatim>\<open>messages\<close> array \<^verbatim>\<open>query\<close> prepares: the system prompt if it is truthy, then
  the history, then the current input. The provider only reads these objects, so they are
  passed by value.\<close>

definition assemble_messages :: "store \<Rightarrow> nat \<Rightarrow> string \<Rightarrow> message list" where
  "assemble_messages w a input =
     (if agent_systemPrompt (agent_objs w ! a) \<noteq> []
      then [\<lparr>role = ''system'', content = Str (agent_systemPrompt (agent_objs w ! a))\<rparr>]
      else [])
     @ history_of w a
     @ [\<lparr>role = ''user'', content = Str input\<rparr>]"

text \<open>\<^verbatim>\<open>{ ...config, messages }\<close>: the captured config with its \<^verbatim>\<open>messages\<close> replaced.\<close>

definition chatConfig :: "store \<Rightarrow> nat \<Rightarrow> string \<Rightarrow> config" where
  "chatConfig w a input =
     (agent_config (agent_objs w ! a))\<lparr>messages := Some (assemble_messages w a input)\<rparr>"

text \<open>\<^verbatim>\<open>response.response\<close>: \<^verbatim>\<open>undefined\<close> when the object has no such property.\<close>

definition response_text :: "provider_response \<Rightarrow> jsval" where
  "response_text resp = (case response resp of Some v \<Rightarrow> v | None \<Rightarrow> Undefined)"

text \<open>The default of the parameter list \<^verbatim>\<open>(input, keepHistory = true)\<close>: an omitted second
  argument is \<^verbatim>\<open>true\<close>.\<close>

definition default_true :: "bool option \<Rightarrow> bool" where
  "default_true keepHistory = (case keepHistory of None \<Rightarrow> True | Some b \<Rightarrow> b)"

text \<open>
  The \<^verbatim>\<open>try\<close> block of \<^verbatim>\<open>query\<close>: call
  \<^verbatim>\<open>this.providers[providerName].generateResponse(input, chatConfig)\<close> and record the turn
  when \<^verbatim>\<open>response.status === 200 && keepHistory\<close>. The events are returned beside the
  outcome because they have happened even when the block throws. When the provider table
  has no own member of that name, the call throws: reading \<^verbatim>\<open>generateResponse\<close> from an
  inherited member gives \<^verbatim>\<open>undefined\<close>, which is not callable, and reading it from
  \<^verbatim>\<open>undefined\<close> is a \<^verbatim>\<open>TypeError\<close> itself.
\<close>

definition query_try ::
  "host \<Rightarrow> nat \<Rightarrow> string \<Rightarrow> bool \<Rightarrow> store \<Rightarrow> event list \<times> (exn + (provider_response \<times> store))" where
  "query_try h a input keepHistory w =
     (case providers (agent_providerName (agent_objs w ! a)) of
        None \<Rightarrow>
          ([], Inl (Error (if inherited (agent_providerName (agent_objs w ! a))
                           then not_a_function h
                           else cannot_read h Undefined ''generateResponse'')))
      | Some kind \<Rightarrow>
          (case generateResponse kind h input (chatConfig w a input) of
             Inl e \<Rightarrow> ([Invoke kind input (chatConfig w a input)], Inl e)
           | Inr (calls, resp) \<Rightarrow>
               (Invoke kind input (chatConfig w a input) # map UrlFetch calls,
                Inr (resp,
                     if status resp = 200 \<and> keepHistory then
                       push_turn a (Str input) (response_text resp) w
                     else w))))"

text \<open>
  \<^verbatim>\<open>query(input, keepHistory = true)\<close>: the guard on \<^verbatim>\<open>input\<close>, then the \<^verbatim>\<open>try\<close> block
  with its \<^verbatim>\<open>catch\<close>. The result type leaves room for an exception escaping
  (\<open>Inl\<close>); that none does is a theorem below, not a convention of the model.
\<close>

definition query ::
  "host \<Rightarrow> nat \<Rightarrow> jsval \<Rightarrow> bool option \<Rightarrow> store
    \<Rightarrow> exn + (provider_response \<times> event list \<times> store)" where
  "query h a input keepHistory w =
     (if \<not> truthy input \<or> \<not> is_string input then
        Inr (error_response 400 ''Input must be a non-empty string.'', [], w)
      else
        (case input of
           Str s \<Rightarrow>
             (case query_try h a s (default_true keepHistory) w of
                (evs, Inl (Error msg)) \<Rightarrow>
                  Inr (error_response 500 (''Error during query execution: '' @ msg), evs, w)
              | (evs, Inr (resp, w')) \<Rightarrow> Inr (resp, evs, w'))
         | _ \<Rightarrow> Inr (error_response 400 ''Input must be a non-empty string.'', [], w)))"

text \<open>What a caller can do to objects it holds a reference to: replace the contents of an
  array (any combination of \<^verbatim>\<open>push\<close>, \<^verbatim>\<open>pop\<close>, \<^verbatim>\<open>splice\<close> and index assignment), and
  assign the fields of a message object.\<close>

definition caller_writes_array :: "nat \<Rightarrow> nat list \<Rightarrow> store \<Rightarrow> store" where
  "caller_writes_array r refs w = w\<lparr>array_objs := (array_objs w)[r := refs]\<rparr>"

definition caller_writes_message :: "nat \<Rightarrow> message \<Rightarrow> store \<Rightarrow> store" where
  "caller_writes_message m msg w = w\<lparr>message_objs := (message_objs w)[m := msg]\<rparr>"

text \<open>An agent reference is well formed in a store when it, its history array and the
  messages of that array exist. Every reference the library hands out is.\<close>

definition wf_agent :: "store \<Rightarrow> nat \<Rightarrow> bool" where
  "wf_agent w a =
     (a < length (agent_objs w)
      \<and> messageHistory (agent_objs w ! a) < length (array_objs w)
      \<and> list_all (\<lambda>m. m < length (message_objs w))
          (array_objs w ! messageHistory (agent_objs w ! a)))"

text \<open>The operations of one agent, and a session as a list of them. An operation that
  throws (\<^verbatim>\<open>setSystemPrompt\<close> on a non-string) leaves the store as it was.\<close>

datatype agent_op =
    Query host jsval "bool option"
  | ClearHistory
  | SetSystemPrompt jsval
  | GetHistory

fun apply_op :: "nat \<Rightarrow> agent_op \<Rightarrow> store \<Rightarrow> store" where
  "apply_op a (Query h input keepHistory) w =
     (case query h a input keepHistory w of Inl e \<Rightarrow> w | Inr (resp, evs, w') \<Rightarrow> w')"
| "apply_op a ClearHistory w = clearHistory a w"
| "apply_op a (SetSystemPrompt prompt) w =
     (case setSystemPrompt a prompt w of Inl e \<Rightarrow> w | Inr w' \<Rightarrow> w')"
| "apply_op a GetHistory w = snd (getHistory a w)"

fun run_ops :: "nat \<Rightarrow> agent_op list \<Rightarrow> store \<Rightarrow> store" where
  "run_ops a [] w = w"
| "run_ops a (op # ops) w = run_ops a ops (apply_op a op w)"

text \<open>The invariant of an agent's history: the references are valid, the length is even,
  and no message has the role \<^verbatim>\<open>system\<close>.\<close>

definition history_ok :: "store \<Rightarrow> nat \<Rightarrow> bool" where
  "history_ok w a =
     (wf_agent w a \<and> even (length (history_of w a))
      \<and> list_all (\<lambda>m. role m \<noteq> ''system'') (history_of w a))"

subsection \<open>The string literals of the six classes, side by side\<close>

text \<open>The name each class looks up in the property store.\<close>

fun secret_name :: "provider_kind \<Rightarrow> string" where
  "secret_name OpenAI = ''OPENAI_API_KEY''"
| "secret_name GoogleAI = ''GOOGLEAI_API_KEY''"
| "secret_name DeepSeek = ''DEEPSEEK_API_KEY''"
| "secret_name OpenRouter = ''OPENROUTER_API_KEY''"
| "secret_name Groq = ''GROQ_API_KEY''"
| "secret_name OpenAILike = ''OPENAI_LIKE_API_KEY''"

text \<open>The message each class returns when no key resolves.\<close>

fun key_required_message :: "provider_kind \<Rightarrow> string" where
  "key_required_message OpenAI = ''OpenAI API key is required.''"
| "key_required_message GoogleAI = ''Google AI API key is required.''"
| "key_required_message DeepSeek = ''DeepSeek API key is required.''"
| "key_required_message OpenRouter = ''OpenRouter API key is required.''"
| "key_required_message Groq = ''Groq API key is required.''"
| "key_required_message OpenAILike = ''API key is required.''"

text \<open>The text each class substitutes for a missing completion.\<close>

fun fallback_message :: "provider_kind \<Rightarrow> string" where
  "fallback_message OpenAI = ''No response from OpenAI.''"
| "fallback_message GoogleAI = ''No response from Google AI.''"
| "fallback_message DeepSeek = ''No response from DeepSeek.''"
| "fallback_message OpenRouter = ''No response from OpenRouter.''"
| "fallback_message Groq = ''No response from Groq.''"
| "fallback_message OpenAILike = ''No response from API.''"

text \<open>
  A success envelope without its text, for the chat-completion shape: an object with no
  \<^verbatim>\<open>error\<close> property whose \<^verbatim>\<open>choices\<close> is an array that is empty, or whose first element
  is an object without \<^verbatim>\<open>message\<close>, or with a \<^verbatim>\<open>message\<close> object without \<^verbatim>\<open>content\<close>.
\<close>

fun message_without_content :: "jsval option \<Rightarrow> bool" where
  "message_without_content None = True"
| "message_without_content (Some (Obj m)) = (map_of m ''content'' = None)"
| "message_without_content (Some v) = False"

fun choices_without_text :: "jsval option \<Rightarrow> bool" where
  "choices_without_text (Some (Arr [])) = True"
| "choices_without_text (Some (Arr (Obj c # rest))) = message_without_content (map_of c ''message'')"
| "choices_without_text v = False"

fun chat_text_absent :: "jsval \<Rightarrow> bool" where
  "chat_text_absent (Obj kvs) =
     (map_of kvs ''error'' = None \<and> choices_without_text (map_of kvs ''choices''))"
| "chat_text_absent v = False"

text \<open>
  The same for the \<^verbatim>\<open>generateContent\<close> shape: \<^verbatim>\<open>candidates\<close> is an array that is empty,
  or whose first element is an object without \<^verbatim>\<open>content\<close>, or with a \<^verbatim>\<open>content\<close> object
  whose \<^verbatim>\<open>parts\<close> is an array that is empty or starts with an object without \<^verbatim>\<open>text\<close>.
\<close>

fun parts_without_text :: "jsval option \<Rightarrow> bool" where
  "parts_without_text (Some (Arr [])) = True"
| "parts_without_text (Some (Arr (Obj part # rest))) = (map_of part ''text'' = None)"
| "parts_without_text v = False"

fun content_without_text :: "jsval option \<Rightarrow> bool" where
  "content_without_text None = True"
| "content_without_text (Some (Obj ct)) = parts_without_text (map_of ct ''parts'')"
| "content_without_text (Some v) = False"

fun candidates_without_text :: "jsval option \<Rightarrow> bool" where
  "candidates_without_text (Some (Arr [])) = True"
| "candidates_without_text (Some (Arr (Obj c # rest))) = content_without_text (map_of c ''content'')"
| "candidates_without_text v = False"

fun google_text_absent :: "jsval \<Rightarrow> bool" where
  "google_text_absent (Obj kvs) =
     (map_of kvs ''error'' = None \<and> candidates_without_text (map_of kvs ''candidates''))"
| "google_text_absent v = False"

fun text_absent :: "provider_kind \<Rightarrow> jsval \<Rightarrow> bool" where
  "text_absent GoogleAI result = google_text_absent result"
| "text_absent kind result = chat_text_absent result"

subsection \<open>Concrete hosts and inputs used to exercise the theorems\<close>

text \<open>A host whose property store answers every name with \<open>key\<close>, whose transport returns
  an empty body, and whose parser answers \<open>reply\<close>.\<close>

definition stub_host :: "(exn + string option) \<Rightarrow> (exn + jsval) \<Rightarrow> host" where
  "stub_host key reply =
     \<lparr>getProperty = (\<lambda>name. key),
      fetch = (\<lambda>req. Inr []),
      JSON_parse = (\<lambda>text. reply),
      number_to_string = (\<lambda>n. ''0''),
      cannot_read = (\<lambda>v k. ''Cannot read properties (reading '' @ k @ '')''),
      not_a_function = ''generateResponse is not a function''\<rparr>"

definition no_config :: config where
  "no_config = \<lparr>apiKey = None, model = None, systemPrompt = None, temperature = None,
                max_tokens = None, messages = None, baseURL = None, referer = None,
                title = None\<rparr>"

text \<open>An upstream chat completion carrying the text \<open>t\<close>.\<close>

definition chat_reply :: "string \<Rightarrow> jsval" where
  "chat_reply t = Obj [(''choices'', Arr [Obj [(''message'', Obj [(''content'', Str t)])]])]"

definition keyed_config :: config where
  "keyed_config = no_config\<lparr>apiKey := Some ''sk-test''\<rparr>"

text \<open>A host with no stored key whose upstream answers \<open>Paris\<close>, and one whose property
  store throws.\<close>

definition paris_host :: host where
  "paris_host = stub_host (Inr None) (Inr (chat_reply ''Paris''))"

definition failing_store_host :: host where
  "failing_store_host = stub_host (Inl (Error ''quota exceeded'')) (Inr Null)"

text \<open>The store after \<^verbatim>\<open>new GASAgent().createAgent('bot', 'OpenAI', {apiKey: 'sk-test'})\<close>,
  and the store after one answered \<^verbatim>\<open>query('hi')\<close> on that agent.\<close>

definition bot_store :: store where
  "bot_store =
     \<lparr>agents = [''bot'' \<mapsto> 0],
      agent_objs = [\<lparr>messageHistory = 0, agent_systemPrompt = [],
                     agent_config = keyed_config, agent_providerName = ''OpenAI''\<rparr>],
      array_objs = [[]],
      message_objs = []\<rparr>"

definition talked_store :: store where
  "talked_store = apply_op 0 (Query paris_host (Str ''hi'') None) bot_store"

definition session :: "agent_op list" where
  "session =
     [Query paris_host (Str ''hi'') None,
      SetSystemPrompt (Str ''Be brief.''),
      GetHistory,
      Query paris_host (Str ''and Italy?'') (Some False),
      ClearHistory,
      Query paris_host (Str []) None,
      Query paris_host (Str ''again'') (Some True)]"

text \<open>Hosts whose upstream answers a completion with an empty \<^verbatim>\<open>choices\<close> array, and an
  empty object.\<close>

definition silent_host :: host where
  "silent_host = stub_host (Inr None) (Inr (Obj [(''choices'', Arr [])]))"

definition bare_host :: host where
  "bare_host = stub_host (Inr None) (Inr (Obj []))"

definition plain_store :: store where
  "plain_store =
     \<lparr>agents = [''bot'' \<mapsto> 0],
      agent_objs = [\<lparr>messageHistory = 0, agent_systemPrompt = [],
                     agent_config = no_config, agent_providerName = ''OpenAI''\<rparr>],
      array_objs = [[]],
      message_objs = []\<rparr>"

text \<open>A config as \<^verbatim>\<open>query\<close> assembles it for an agent with a system prompt, with a base
  URL so that every class gets as far as building its request; and a config that sets
  both sampling parameters to zero.\<close>

definition context_messages :: "message list" where
  "context_messages =
     [\<lparr>role = ''system'', content = Str ''Be brief.''\<rparr>,
      \<lparr>role = ''user'', content = Str ''hi''\<rparr>]"

definition context_config :: config where
  "context_config =
     keyed_config\<lparr>messages := Some context_messages, baseURL := Some ''https://llm.example''\<rparr>"

definition zero_config :: config where
  "zero_config =
     keyed_config\<lparr>temperature := Some 0, max_tokens := Some 0,
                  baseURL := Some ''https://llm.example''\<rparr>"

text \<open>What a provider call put on the wire: the \<^verbatim>\<open>messages\<close> of each request body (none
  for the \<^verbatim>\<open>generateContent\<close> shape), and the temperature and token limit of each.\<close>

fun payload_messages :: "payload \<Rightarrow> message list option" where
  "payload_messages (ChatCompletion m ms t k) = Some ms"
| "payload_messages (GenerateContent txt t k) = None"

fun payload_sampling :: "payload \<Rightarrow> rat \<times> rat" where
  "payload_sampling (ChatCompletion m ms t k) = (t, k)"
| "payload_sampling (GenerateContent txt t k) = (t, k)"

fun sent_messages :: "provider_result \<Rightarrow> message list option list" where
  "sent_messages (Inl e) = []"
| "sent_messages (Inr (calls, resp)) = map (\<lambda>req. payload_messages (body req)) calls"

fun sent_sampling :: "provider_result \<Rightarrow> (rat \<times> rat) list" where
  "sent_sampling (Inl e) = []"
| "sent_sampling (Inr (calls, resp)) = map (\<lambda>req. payload_sampling (body req)) calls"

section \<open>Properties\<close>

subsection \<open>Unfolding rules for concrete inputs\<close>

lemmas provider_defs =
  OpenAIProvider_generateResponse_def OpenAILikeProvider_generateResponse_def
  GoogleAIProvider_generateResponse_def DeepSeekProvider_generateResponse_def
  OpenRouterProvider_generateResponse_def GroqProvider_generateResponse_def

lemmas exchange_defs =
  resolve_key_def try_catch_def try_block_def chat_text_def google_text_def
  bearer_headers_def or_str_def or_num_def ok_response_def error_response_def

lemmas agent_defs =
  query_def query_try_def chatConfig_def assemble_messages_def history_of_def
  push_turn_def providers_def default_true_def response_text_def

lemmas sample_defs =
  stub_host_def paris_host_def failing_store_host_def silent_host_def bare_host_def
  chat_reply_def no_config_def keyed_config_def context_config_def context_messages_def
  zero_config_def bot_store_def plain_store_def

subsection \<open>A provider's success always carries a text\<close>

lemma try_catch_200:
  assumes "fallback \<noteq> []"
    and "status (try_catch h req text_of api_error fallback provider_error) = 200"
  shows "\<exists>t. response (try_catch h req text_of api_error fallback provider_error) = Some t
             \<and> truthy t"
  using assms
  by (auto simp: try_catch_def try_block_def ok_response_def error_response_def
      split: sum.splits exn.splits if_splits)

lemma generateResponse_200:
  assumes "generateResponse kind h input cfg = Inr (calls, resp)" and "status resp = 200"
  shows "\<exists>t. response resp = Some t \<and> truthy t"
  using assms
  by (cases kind)
     (auto simp: provider_defs error_response_def Let_def
        split: sum.splits option.splits if_splits dest!: try_catch_200[rotated])

subsection \<open>The store under the agent operations\<close>

lemma history_of_push_turn:
  "wf_agent w a \<Longrightarrow>
   history_of (push_turn a i t w) a =
     history_of w a @ [\<lparr>role = ''user'', content = i\<rparr>, \<lparr>role = ''assistant'', content = t\<rparr>]"
  by (auto simp: wf_agent_def history_of_def push_turn_def Let_def nth_append list_all_iff)

lemma wf_agent_push_turn: "wf_agent w a \<Longrightarrow> wf_agent (push_turn a i t w) a"
  by (auto simp: wf_agent_def push_turn_def Let_def list_all_iff)

lemma wf_agent_clearHistory: "a < length (agent_objs w) \<Longrightarrow> wf_agent (clearHistory a w) a"
  by (simp add: wf_agent_def clearHistory_def nth_append)

lemma history_of_clearHistory:
  "a < length (agent_objs w) \<Longrightarrow> history_of (clearHistory a w) a = []"
  by (simp add: history_of_def clearHistory_def nth_append)

lemma wf_agent_setSystemPrompt:
  "wf_agent w a \<Longrightarrow> setSystemPrompt a p w = Inr w' \<Longrightarrow> wf_agent w' a"
  by (auto simp: wf_agent_def setSystemPrompt_def split: jsval.splits)

lemma history_of_setSystemPrompt:
  "wf_agent w a \<Longrightarrow> setSystemPrompt a p w = Inr w' \<Longrightarrow> history_of w' a = history_of w a"
  by (auto simp: wf_agent_def history_of_def setSystemPrompt_def split: jsval.splits)

lemma wf_agent_getHistory: "wf_agent w a \<Longrightarrow> wf_agent (snd (getHistory a w)) a"
  by (auto simp: wf_agent_def getHistory_def nth_append)

lemma history_of_getHistory:
  "wf_agent w a \<Longrightarrow> history_of (snd (getHistory a w)) a = history_of w a"
  by (auto simp: wf_agent_def history_of_def getHistory_def nth_append)

lemma createAgent_fresh:
  assumes "createAgent w0 agentName providerName cfg = Inr (a, w)"
  shows "wf_agent w a" and "history_of w a = []" and "a = length (agent_objs w0)"
  using assms
  by (auto simp: createAgent_def wf_agent_def history_of_def Let_def nth_append
      split: if_splits jsval.splits)

subsection \<open>The two ways a query can end\<close>

lemma query_returns: "\<exists>resp evs w'. query h a input keepHistory w = Inr (resp, evs, w')"
  by (auto simp: query_def split: jsval.splits prod.splits sum.splits exn.splits)

text \<open>Either the store is untouched and the turn was not to be recorded, or the response
  is a success carrying a truthy text, recording was on, and exactly one turn was pushed.\<close>

lemma query_cases:
  assumes "query h a input keepHistory w = Inr (resp, evs, w')"
  shows "(w' = w \<and> \<not> (status resp = 200 \<and> default_true keepHistory))
       \<or> (status resp = 200 \<and> default_true keepHistory \<and> truthy (response_text resp)
           \<and> response resp \<noteq> None
           \<and> w' = push_turn a input (response_text resp) w)"
proof (cases "\<not> truthy input \<or> \<not> is_string input")
  case True
  then show ?thesis using assms by (auto simp: query_def error_response_def)
next
  case False
  then obtain s where s: "input = Str s" "s \<noteq> []" by (cases input) auto
  show ?thesis
  proof (cases "providers (agent_providerName (agent_objs w ! a))")
    case None
    then show ?thesis using assms s
      by (auto simp: query_def query_try_def error_response_def)
  next
    case (Some kind)
    show ?thesis
    proof (cases "generateResponse kind h s (chatConfig w a s)")
      case (Inl e)
      then show ?thesis using assms s Some
        by (cases e) (auto simp: query_def query_try_def error_response_def)
    next
      case (Inr p)
      obtain calls r where p: "p = (calls, r)" by (cases p)
      show ?thesis
      proof (cases "status r = 200")
        case True
        from generateResponse_200[OF Inr[unfolded p] True]
        obtain t where "response r = Some t" "truthy t" by blast
        then show ?thesis using assms s Some Inr p True
          by (auto simp: query_def query_try_def response_text_def)
      next
        case False
        then show ?thesis using assms s Some Inr p
          by (auto simp: query_def query_try_def)
      qed
    qed
  qed
qed

lemma wf_agent_query:
  "wf_agent w a \<Longrightarrow> query h a input keepHistory w = Inr (resp, evs, w') \<Longrightarrow> wf_agent w' a"
  using query_cases[of h a input keepHistory w resp evs w'] by (auto simp: wf_agent_push_turn)

lemma history_ok_apply_op: "history_ok w a \<Longrightarrow> history_ok (apply_op a op w) a"
proof (cases op)
  case (Query h input keepHistory)
  assume ok: "history_ok w a"
  obtain resp evs w' where q: "query h a input keepHistory w = Inr (resp, evs, w')"
    using query_returns by blast
  from query_cases[OF q] ok show ?thesis
    unfolding Query using q
    by (auto simp: history_ok_def history_of_push_turn wf_agent_push_turn)
next
  case ClearHistory
  assume "history_ok w a"
  then have "a < length (agent_objs w)" by (simp add: history_ok_def wf_agent_def)
  then show ?thesis unfolding ClearHistory
    by (simp add: history_ok_def wf_agent_clearHistory history_of_clearHistory)
next
  case (SetSystemPrompt p)
  assume "history_ok w a"
  then show ?thesis unfolding SetSystemPrompt
    by (auto simp: history_ok_def wf_agent_setSystemPrompt history_of_setSystemPrompt
        split: sum.splits)
next
  case GetHistory
  assume "history_ok w a"
  then show ?thesis unfolding GetHistory
    by (simp add: history_ok_def wf_agent_getHistory history_of_getHistory)
qed

lemma history_ok_run_ops: "history_ok w a \<Longrightarrow> history_ok (run_ops a ops w) a"
  by (induction ops arbitrary: w) (auto simp: history_ok_apply_op)

subsection \<open>Concrete runs\<close>

lemma createAgent_bot:
  "createAgent new_GASAgent (Str ''bot'') ''OpenAI'' keyed_config = Inr (0, bot_store)"
  by (simp add: createAgent_def new_GASAgent_def bot_store_def providers_def inherited_def
      object_prototype_keys_def or_str_def keyed_config_def no_config_def)

lemma wf_bot_store: "wf_agent bot_store 0"
  by (simp add: wf_agent_def bot_store_def)

lemma query_bot_hi:
  "query paris_host 0 (Str ''hi'') None bot_store =
     Inr (ok_response (Str ''Paris''),
          [Invoke OpenAI ''hi'' (keyed_config\<lparr>messages := Some [\<lparr>role = ''user'', content = Str ''hi''\<rparr>]\<rparr>),
           UrlFetch \<lparr>url = ''https://api.openai.com/v1/chat/completions'',
                     http_method = ''post'',
                     headers = [(''Authorization'', ''Bearer sk-test''),
                                (''Content-Type'', ''application/json'')],
                     body = ChatCompletion ''gpt-3.5-turbo''
                              [\<lparr>role = ''user'', content = Str ''hi''\<rparr>] (7 / 10) 100\<rparr>],
          push_turn 0 (Str ''hi'') (Str ''Paris'') bot_store)"
  by (simp add: agent_defs provider_defs exchange_defs sample_defs Let_def)

lemma talked_store_eq: "talked_store = push_turn 0 (Str ''hi'') (Str ''Paris'') bot_store"
  by (simp add: talked_store_def query_bot_hi)

subsection \<open>Agent.query and the history\<close>

text \<open>
  C2. A call \<^verbatim>\<open>query(input, keepHistory)\<close> on an agent with history \<open>H\<close> leaves the history
  \<open>H\<close> extended by the user message holding the input and the assistant message holding
  the response text, in this order, exactly when the returned status is 200,
  \<^verbatim>\<open>keepHistory\<close> is true (given or by default) and the response text is not empty; in
  every other case the history is \<open>H\<close>. The agent itself only tests the status and
  \<^verbatim>\<open>keepHistory\<close>; the third condition holds of every success because each provider
  substitutes its fallback for a falsy text.
\<close>

theorem query_history:
  assumes "wf_agent w a"
    and "query h a input keepHistory w = Inr (resp, evs, w')"
  shows "history_of w' a =
           history_of w a @
             (if status resp = 200 \<and> keepHistory \<noteq> Some False
                 \<and> response resp \<noteq> None \<and> response resp \<noteq> Some (Str [])
              then [\<lparr>role = ''user'', content = input\<rparr>,
                    \<lparr>role = ''assistant'', content = response_text resp\<rparr>]
              else [])"
proof -
  have keep: "default_true keepHistory \<longleftrightarrow> keepHistory \<noteq> Some False"
    by (auto simp: default_true_def split: option.splits)
  from query_cases[OF assms(2)] show ?thesis
  proof
    assume "w' = w \<and> \<not> (status resp = 200 \<and> default_true keepHistory)"
    then show ?thesis using keep by auto
  next
    assume pushed: "status resp = 200 \<and> default_true keepHistory \<and> truthy (response_text resp)
           \<and> response resp \<noteq> None
           \<and> w' = push_turn a input (response_text resp) w"
    then have "response resp \<noteq> Some (Str [])"
      by (auto simp: response_text_def)
    with pushed keep assms(1) show ?thesis
      by (simp add: history_of_push_turn)
  qed
qed

theorem query_history_witness:
  "wf_agent bot_store 0
   \<and> query paris_host 0 (Str ''hi'') None bot_store =
       Inr (ok_response (Str ''Paris''),
          [Invoke OpenAI ''hi'' (keyed_config\<lparr>messages := Some [\<lparr>role = ''user'', content = Str ''hi''\<rparr>]\<rparr>),
           UrlFetch \<lparr>url = ''https://api.openai.com/v1/chat/completions'',
                     http_method = ''post'',
                     headers = [(''Authorization'', ''Bearer sk-test''),
                                (''Content-Type'', ''application/json'')],
                     body = ChatCompletion ''gpt-3.5-turbo''
                              [\<lparr>role = ''user'', content = Str ''hi''\<rparr>] (7 / 10) 100\<rparr>],
          talked_store)
   \<and> history_of talked_store 0 =
       [\<lparr>role = ''user'', content = Str ''hi''\<rparr>, \<lparr>role = ''assistant'', content = Str ''Paris''\<rparr>]"
proof -
  note q = query_bot_hi[folded talked_store_eq]
  have "history_of bot_store 0 = []"
    by (simp add: history_of_def bot_store_def)
  with query_history[OF wf_bot_store q] wf_bot_store q show ?thesis
    by (simp add: ok_response_def response_text_def)
qed

text \<open>
  C6. From the empty history of a newly created agent, after any sequence of \<^verbatim>\<open>query\<close>,
  \<^verbatim>\<open>clearHistory\<close>, \<^verbatim>\<open>setSystemPrompt\<close> and \<^verbatim>\<open>getHistory\<close> calls, whatever the hosts
  answer, the history has even length and holds no message of role \<^verbatim>\<open>system\<close>.
\<close>

theorem history_invariant:
  assumes "createAgent w0 agentName providerName cfg = Inr (a, w)"
  shows "even (length (history_of (run_ops a ops w) a))
       \<and> (\<forall>m \<in> set (history_of (run_ops a ops w) a). role m \<noteq> ''system'')"
proof -
  have "history_ok w a"
    by (simp add: history_ok_def createAgent_fresh(1,2)[OF assms])
  then have "history_ok (run_ops a ops w) a" by (rule history_ok_run_ops)
  then show ?thesis by (simp add: history_ok_def list_all_iff)
qed

theorem history_invariant_witness:
  "createAgent new_GASAgent (Str ''bot'') ''OpenAI'' keyed_config = Inr (0, bot_store)
   \<and> even (length (history_of (run_ops 0 session bot_store) 0))
   \<and> list_all (\<lambda>m. role m \<noteq> ''system'') (history_of (run_ops 0 session bot_store) 0)"
  using history_invariant[OF createAgent_bot, of session] createAgent_bot
  by (simp add: list_all_iff)

text \<open>
  C7. \<^verbatim>\<open>query\<close> always returns a response and never throws, whatever the input, the
  store and the host do; when the \<^verbatim>\<open>try\<close> block throws an exception with message
  \<open>msg\<close> (the provider's \<^verbatim>\<open>generateResponse\<close> threw, or there was nothing to call), the
  result is status 500 with the text \<^verbatim>\<open>Error during query execution: \<close> followed by
  \<open>msg\<close>, and the store is as before.
\<close>

theorem query_never_raises:
  "(\<exists>resp evs w'. query h a input keepHistory w = Inr (resp, evs, w'))
   \<and> (\<forall>s evs msg.
         input = Str s \<and> s \<noteq> []
         \<and> query_try h a s (default_true keepHistory) w = (evs, Inl (Error msg))
         \<longrightarrow> query h a input keepHistory w =
               Inr (error_response 500 (''Error during query execution: '' @ msg), evs, w))"
  using query_returns[of h a input keepHistory w]
  by (auto simp: query_def)

theorem query_never_raises_witness:
  "query_try failing_store_host 0 ''hi'' True plain_store =
     ([Invoke OpenAI ''hi'' (no_config\<lparr>messages := Some [\<lparr>role = ''user'', content = Str ''hi''\<rparr>]\<rparr>)],
      Inl (Error ''quota exceeded''))
   \<and> query failing_store_host 0 (Str ''hi'') None plain_store =
       Inr (error_response 500 ''Error during query execution: quota exceeded'',
            [Invoke OpenAI ''hi'' (no_config\<lparr>messages := Some [\<lparr>role = ''user'', content = Str ''hi''\<rparr>]\<rparr>)],
            plain_store)"
proof -
  have t: "query_try failing_store_host 0 ''hi'' (default_true None) plain_store =
     ([Invoke OpenAI ''hi'' (no_config\<lparr>messages := Some [\<lparr>role = ''user'', content = Str ''hi''\<rparr>]\<rparr>)],
      Inl (Error ''quota exceeded''))"
    by (simp add: agent_defs provider_defs exchange_defs sample_defs)
  from query_never_raises[of failing_store_host 0 "Str ''hi''" None plain_store] t
  show ?thesis by (simp add: default_true_def)
qed

text \<open>
  C8. When the input is not a non-empty string (the empty string, or any value that is
  not a string), \<^verbatim>\<open>query\<close> returns status 400 with the text
  \<^verbatim>\<open>Input must be a non-empty string.\<close>, no provider is invoked and nothing is fetched,
  and the store, hence the history, is what it was.
\<close>

theorem query_rejects_input:
  assumes "\<And>s. input = Str s \<Longrightarrow> s = []"
  shows "query h a input keepHistory w =
           Inr (error_response 400 ''Input must be a non-empty string.'', [], w)"
  using assms by (cases input) (simp_all add: query_def)

theorem query_rejects_input_witness:
  "query paris_host 0 (Str []) None talked_store =
     Inr (error_response 400 ''Input must be a non-empty string.'', [], talked_store)
   \<and> query paris_host 0 (Num 5) (Some True) talked_store =
     Inr (error_response 400 ''Input must be a non-empty string.'', [], talked_store)"
  using query_rejects_input[of "Str []" paris_host 0 None talked_store]
        query_rejects_input[of "Num 5" paris_host 0 "Some True" talked_store]
  by simp

subsection \<open>Registry.createAgent\<close>

lemma providers_None_iff:
  "providers p = None \<longleftrightarrow>
   p \<notin> set [''OpenAI'', ''GoogleAI'', ''DeepSeek'', ''OpenRouter'', ''Groq'', ''OpenAILike'']"
  by (simp add: providers_def)

text \<open>
  C9 (as amended). The guards of \<^verbatim>\<open>createAgent\<close> apply in order. It fails with
  \<^verbatim>\<open>Agent name must be a non-empty string.\<close> exactly when the name is empty or not a
  string; for a valid name, it fails with \<^verbatim>\<open>Agent '<name>' already exists.\<close> exactly when
  the name is registered; for a valid, unregistered name, it fails with
  \<^verbatim>\<open>Provider '<kind>' not registered.\<close> exactly when the kind is not one of the six;
  otherwise it builds an agent with an empty history, stores its reference under the name
  and returns that reference. Names and kinds that a plain object inherits
  (\<^verbatim>\<open>constructor\<close>, \<^verbatim>\<open>toString\<close>, ...) are left out of the statement.
\<close>

theorem createAgent_outcome:
  assumes "\<not> inherited name" and "\<not> inherited providerName"
  shows "createAgent w (Str name) providerName cfg =
     (if name = [] then Inl (Error ''Agent name must be a non-empty string.'')
      else if name \<in> dom (agents w) then
        Inl (Error (''Agent '' @ [CHR 0x27] @ name @ [CHR 0x27] @ '' already exists.''))
      else if providerName \<notin> set [''OpenAI'', ''GoogleAI'', ''DeepSeek'', ''OpenRouter'',
                                   ''Groq'', ''OpenAILike''] then
        Inl (Error (''Provider '' @ [CHR 0x27] @ providerName @ [CHR 0x27] @ '' not registered.''))
      else Inr (length (agent_objs w),
                w\<lparr>agents := (agents w)(name \<mapsto> length (agent_objs w)),
                  agent_objs := agent_objs w @
                    [\<lparr>messageHistory = length (array_objs w),
                      agent_systemPrompt = or_str (systemPrompt cfg) [],
                      agent_config = cfg,
                      agent_providerName = providerName\<rparr>],
                  array_objs := array_objs w @ [[]]\<rparr>))
   \<and> (\<not> is_string v \<longrightarrow>
        createAgent w v providerName cfg = Inl (Error ''Agent name must be a non-empty string.''))"
proof -
  have other: "\<not> is_string v \<longrightarrow>
        createAgent w v providerName cfg = Inl (Error ''Agent name must be a non-empty string.'')"
    by (simp add: createAgent_def)
  have named: "createAgent w (Str name) providerName cfg =
     (if name = [] then Inl (Error ''Agent name must be a non-empty string.'')
      else if name \<in> dom (agents w) then
        Inl (Error (''Agent '' @ [CHR 0x27] @ name @ [CHR 0x27] @ '' already exists.''))
      else if providers providerName = None then
        Inl (Error (''Provider '' @ [CHR 0x27] @ providerName @ [CHR 0x27] @ '' not registered.''))
      else Inr (length (agent_objs w),
                w\<lparr>agents := (agents w)(name \<mapsto> length (agent_objs w)),
                  agent_objs := agent_objs w @
                    [\<lparr>messageHistory = length (array_objs w),
                      agent_systemPrompt = or_str (systemPrompt cfg) [],
                      agent_config = cfg,
                      agent_providerName = providerName\<rparr>],
                  array_objs := array_objs w @ [[]]\<rparr>))"
    using assms by (auto simp: createAgent_def Let_def dom_def)
  show ?thesis using other named unfolding providers_None_iff by simp
qed

theorem createAgent_outcome_witness:
  "\<not> inherited ''bot'' \<and> \<not> inherited ''OpenAI'' \<and> \<not> inherited ''NoSuchProvider''
   \<and> createAgent new_GASAgent (Str ''bot'') ''OpenAI'' keyed_config = Inr (0, bot_store)
   \<and> createAgent bot_store (Str ''bot'') ''OpenAI'' keyed_config =
       Inl (Error ''Agent 'bot' already exists.'')
   \<and> createAgent bot_store (Str ''x'') ''NoSuchProvider'' keyed_config =
       Inl (Error ''Provider 'NoSuchProvider' not registered.'')
   \<and> createAgent bot_store (Num 7) ''OpenAI'' keyed_config =
       Inl (Error ''Agent name must be a non-empty string.'')"
proof -
  have i: "\<not> inherited ''bot''" "\<not> inherited ''OpenAI''" "\<not> inherited ''NoSuchProvider''"
          "\<not> inherited ''x''"
    by (simp_all add: inherited_def object_prototype_keys_def)
  from createAgent_outcome[OF i(1) i(2), of new_GASAgent keyed_config "Num 7"]
       createAgent_outcome[OF i(1) i(2), of bot_store keyed_config "Num 7"]
       createAgent_outcome[OF i(4) i(3), of bot_store keyed_config "Num 7"]
       i
  show ?thesis
    by (simp add: new_GASAgent_def bot_store_def or_str_def keyed_config_def no_config_def)
qed

theorem createAgent_guard_order_counterexample:
  "providers ''NoSuchProvider'' = None
   \<and> createAgent new_GASAgent (Str []) ''NoSuchProvider'' no_config =
       Inl (Error ''Agent name must be a non-empty string.'')
   \<and> createAgent new_GASAgent (Str []) ''NoSuchProvider'' no_config \<noteq>
       Inl (Error ''Provider 'NoSuchProvider' not registered.'')"
  by (simp add: createAgent_def providers_def)

subsection \<open>Agent.getHistory\<close>

text \<open>
  C10 (as amended). \<^verbatim>\<open>getHistory\<close> returns a new array holding the agent's messages: the
  array it returns reads as the history; two consecutive calls return equal sequences;
  and whatever the caller then does to the returned array (adding, removing or replacing
  elements), the stored history and the result of a later \<^verbatim>\<open>getHistory\<close> are unchanged.
  The message objects in the array are the agent's own, so nothing is claimed for writes
  to their fields.
\<close>

theorem getHistory_copy:
  assumes "wf_agent w a"
    and "getHistory a w = (r1, w1)"
    and "getHistory a w1 = (r2, w2)"
    and "getHistory a (caller_writes_array r1 refs w1) = (r3, w3)"
  shows "read_array w1 r1 = history_of w a
       \<and> read_array w2 r2 = read_array w2 r1
       \<and> history_of (caller_writes_array r1 refs w1) a = history_of w a
       \<and> read_array w3 r3 = history_of w a"
  using assms
  by (auto simp: wf_agent_def getHistory_def read_array_def history_of_def
      caller_writes_array_def nth_append)

lemma talked_store_value:
  "talked_store =
     \<lparr>agents = [''bot'' \<mapsto> 0],
      agent_objs = [\<lparr>messageHistory = 0, agent_systemPrompt = [],
                     agent_config = keyed_config, agent_providerName = ''OpenAI''\<rparr>],
      array_objs = [[0, 1]],
      message_objs = [\<lparr>role = ''user'', content = Str ''hi''\<rparr>,
                      \<lparr>role = ''assistant'', content = Str ''Paris''\<rparr>]\<rparr>"
  by (simp add: talked_store_eq push_turn_def bot_store_def Let_def)

lemma wf_talked_store: "wf_agent talked_store 0"
  by (simp add: talked_store_value wf_agent_def)

lemma history_of_talked_store:
  "history_of talked_store 0 =
     [\<lparr>role = ''user'', content = Str ''hi''\<rparr>, \<lparr>role = ''assistant'', content = Str ''Paris''\<rparr>]"
  by (simp add: talked_store_value history_of_def)

lemma getHistory_talked_store:
  "getHistory 0 talked_store = (1, talked_store\<lparr>array_objs := [[0, 1], [0, 1]]\<rparr>)"
  by (simp add: talked_store_value getHistory_def)

theorem getHistory_copy_witness:
  "wf_agent talked_store 0
   \<and> getHistory 0 talked_store = (1, talked_store\<lparr>array_objs := [[0, 1], [0, 1]]\<rparr>)
   \<and> getHistory 0 (talked_store\<lparr>array_objs := [[0, 1], [0, 1]]\<rparr>) =
        (2, talked_store\<lparr>array_objs := [[0, 1], [0, 1], [0, 1]]\<rparr>)
   \<and> getHistory 0 (caller_writes_array 1 [] (talked_store\<lparr>array_objs := [[0, 1], [0, 1]]\<rparr>)) =
        (2, talked_store\<lparr>array_objs := [[0, 1], [], [0, 1]]\<rparr>)
   \<and> read_array (talked_store\<lparr>array_objs := [[0, 1], [0, 1]]\<rparr>) 1 =
        [\<lparr>role = ''user'', content = Str ''hi''\<rparr>, \<lparr>role = ''assistant'', content = Str ''Paris''\<rparr>]
   \<and> history_of (caller_writes_array 1 [] (talked_store\<lparr>array_objs := [[0, 1], [0, 1]]\<rparr>)) 0 =
        [\<lparr>role = ''user'', content = Str ''hi''\<rparr>, \<lparr>role = ''assistant'', content = Str ''Paris''\<rparr>]
   \<and> read_array (talked_store\<lparr>array_objs := [[0, 1], [], [0, 1]]\<rparr>) 2 =
        [\<lparr>role = ''user'', content = Str ''hi''\<rparr>, \<lparr>role = ''assistant'', content = Str ''Paris''\<rparr>]"
proof -
  have g2: "getHistory 0 (talked_store\<lparr>array_objs := [[0, 1], [0, 1]]\<rparr>) =
        (2, talked_store\<lparr>array_objs := [[0, 1], [0, 1], [0, 1]]\<rparr>)"
    by (simp add: talked_store_value getHistory_def)
  have g3: "getHistory 0 (caller_writes_array 1 [] (talked_store\<lparr>array_objs := [[0, 1], [0, 1]]\<rparr>)) =
        (2, talked_store\<lparr>array_objs := [[0, 1], [], [0, 1]]\<rparr>)"
    by (simp add: talked_store_value getHistory_def caller_writes_array_def)
  from getHistory_copy[OF wf_talked_store getHistory_talked_store g2 g3]
       wf_talked_store getHistory_talked_store g2 g3
  show ?thesis by (simp add: history_of_talked_store)
qed

theorem getHistory_shares_messages_counterexample:
  "array_objs (snd (getHistory 0 talked_store)) ! fst (getHistory 0 talked_store) = [0, 1]
   \<and> history_of talked_store 0 =
       [\<lparr>role = ''user'', content = Str ''hi''\<rparr>, \<lparr>role = ''assistant'', content = Str ''Paris''\<rparr>]
   \<and> history_of (caller_writes_message 0 \<lparr>role = ''system'', content = Str ''edited''\<rparr>
                    (snd (getHistory 0 talked_store))) 0 =
       [\<lparr>role = ''system'', content = Str ''edited''\<rparr>,
        \<lparr>role = ''assistant'', content = Str ''Paris''\<rparr>]"
  by (simp add: talked_store_value getHistory_def caller_writes_message_def history_of_def)

subsection \<open>Providers: credentials\<close>

text \<open>
  C4 (as amended). When the config carries no API key (absent or empty) and the property
  store has no value under the provider's key name, \<^verbatim>\<open>generateResponse\<close> returns status
  400 without fetching anything. The message is \<^verbatim>\<open><Name> API key is required.\<close> with
  the name \<^verbatim>\<open>OpenAI\<close>, \<^verbatim>\<open>Google AI\<close>, \<^verbatim>\<open>DeepSeek\<close>, \<^verbatim>\<open>OpenRouter\<close> or \<^verbatim>\<open>Groq\<close>; the
  custom-endpoint provider names no provider and says \<^verbatim>\<open>API key is required.\<close>
\<close>

theorem missing_key_response:
  assumes "apiKey cfg = None \<or> apiKey cfg = Some []"
    and "getProperty h (secret_name kind) = Inr None"
  shows "generateResponse kind h input cfg =
           Inr ([], error_response 400 (key_required_message kind))"
  using assms by (cases kind) (auto simp: provider_defs resolve_key_def)

theorem missing_key_response_witness:
  "apiKey no_config = None
   \<and> getProperty paris_host (secret_name GoogleAI) = Inr None
   \<and> generateResponse GoogleAI paris_host ''hi'' no_config =
       Inr ([], error_response 400 ''Google AI API key is required.'')"
proof -
  have k: "apiKey no_config = None \<or> apiKey no_config = Some []"
    by (simp add: no_config_def)
  have p: "getProperty paris_host (secret_name GoogleAI) = Inr None"
    by (simp add: paris_host_def stub_host_def)
  from missing_key_response[OF k p, of "''hi''"] p show ?thesis
    by (simp add: no_config_def)
qed

theorem missing_key_generic_message_counterexample:
  "generateResponse OpenAILike paris_host ''hi'' no_config =
     Inr ([], error_response 400 ''API key is required.'')
   \<and> generateResponse OpenAILike paris_host ''hi'' no_config \<noteq>
     Inr ([], error_response 400 (''OpenAILike'' @ '' API key is required.''))"
  by (simp add: provider_defs exchange_defs sample_defs)

subsection \<open>Providers: a success envelope without text\<close>

lemma chat_text_absent_reads:
  assumes "chat_text_absent result"
  shows "js_get h result ''error'' = Inr Undefined" and "chat_text h result = Inr Undefined"
proof -
  from assms obtain kvs where r: "result = Obj kvs" "map_of kvs ''error'' = None"
      "choices_without_text (map_of kvs ''choices'')"
    by (auto elim: chat_text_absent.elims(2))
  show "js_get h result ''error'' = Inr Undefined" using r by simp
  from r(3) show "chat_text h result = Inr Undefined"
  proof (cases rule: choices_without_text.elims(2))
    case 1
    then show ?thesis using r by (simp add: chat_text_def)
  next
    case (2 c rest)
    note choices = \<open>map_of kvs ''choices'' = Some (Arr (Obj c # rest))\<close>
    from 2(2) show ?thesis
    proof (cases rule: message_without_content.elims(2))
      case 1
      then show ?thesis using choices r by (simp add: chat_text_def)
    next
      case (2 m)
      then show ?thesis using choices r by (simp add: chat_text_def)
    qed
  qed
qed

lemma google_text_absent_reads:
  assumes "google_text_absent result"
  shows "js_get h result ''error'' = Inr Undefined" and "google_text h result = Inr Undefined"
proof -
  from assms obtain kvs where r: "result = Obj kvs" "map_of kvs ''error'' = None"
      "candidates_without_text (map_of kvs ''candidates'')"
    by (auto elim: google_text_absent.elims(2))
  show "js_get h result ''error'' = Inr Undefined" using r by simp
  from r(3) show "google_text h result = Inr Undefined"
  proof (cases rule: candidates_without_text.elims(2))
    case 1
    then show ?thesis using r by (simp add: google_text_def)
  next
    case (2 c rest)
    note candidates = \<open>map_of kvs ''candidates'' = Some (Arr (Obj c # rest))\<close>
    from 2(2) show ?thesis
    proof (cases rule: content_without_text.elims(2))
      case 1
      then show ?thesis using candidates r by (simp add: google_text_def)
    next
      case (2 ct)
      note content = \<open>map_of c ''content'' = Some (Obj ct)\<close>
      from 2(2) show ?thesis
      proof (cases rule: parts_without_text.elims(2))
        case 1
        then show ?thesis using content candidates r by (simp add: google_text_def)
      next
        case (2 part rest')
        then show ?thesis using content candidates r by (simp add: google_text_def)
      qed
    qed
  qed
qed

lemma try_catch_fallback:
  assumes "fetch h req = Inr content_text"
    and "JSON_parse h content_text = Inr result"
    and "js_get h result ''error'' = Inr Undefined"
    and "text_of h result = Inr Undefined"
  shows "try_catch h req text_of api_error fallback provider_error = ok_response (Str fallback)"
  using assms by (simp add: try_catch_def try_block_def)

text \<open>
  C5 (as amended). With a key in the config (and a base URL for the custom-endpoint
  provider), when the upstream body parses to an object that has no \<^verbatim>\<open>error\<close> property
  and has its \<^verbatim>\<open>choices\<close> (for Google AI, \<^verbatim>\<open>candidates\<close>) array but no text beneath it,
  \<^verbatim>\<open>generateResponse\<close> makes its one request and returns status 200 with the text
  \<^verbatim>\<open>No response from <Name>.\<close>, the name being \<^verbatim>\<open>OpenAI\<close>, \<^verbatim>\<open>Google AI\<close>, \<^verbatim>\<open>DeepSeek\<close>,
  \<^verbatim>\<open>OpenRouter\<close> or \<^verbatim>\<open>Groq\<close>, and \<^verbatim>\<open>API\<close> for the custom-endpoint provider.
\<close>

theorem fallback_on_missing_text:
  assumes "apiKey cfg = Some key" and "key \<noteq> []"
    and "kind = OpenAILike \<longrightarrow> (\<exists>base. baseURL cfg = Some base \<and> base \<noteq> [])"
    and "\<And>req. fetch h req = Inr content_text"
    and "JSON_parse h content_text = Inr result"
    and "text_absent kind result"
  shows "\<exists>req. generateResponse kind h input cfg =
                 Inr ([req], ok_response (Str (fallback_message kind)))"
proof (cases kind)
  case GoogleAI
  with assms(6) have "google_text_absent result" by simp
  from try_catch_fallback[of h _ content_text result google_text, OF assms(4) assms(5) google_text_absent_reads[OF this]]
  show ?thesis using assms(1,2) GoogleAI
    by (simp add: provider_defs resolve_key_def Let_def)
next
  case OpenAI
  with assms(6) have "chat_text_absent result" by simp
  from try_catch_fallback[of h _ content_text result chat_text, OF assms(4) assms(5) chat_text_absent_reads[OF this]]
  show ?thesis using assms(1,2) OpenAI
    by (simp add: provider_defs resolve_key_def Let_def)
next
  case DeepSeek
  with assms(6) have "chat_text_absent result" by simp
  from try_catch_fallback[of h _ content_text result chat_text, OF assms(4) assms(5) chat_text_absent_reads[OF this]]
  show ?thesis using assms(1,2) DeepSeek
    by (simp add: provider_defs resolve_key_def Let_def)
next
  case OpenRouter
  with assms(6) have "chat_text_absent result" by simp
  from try_catch_fallback[of h _ content_text result chat_text, OF assms(4) assms(5) chat_text_absent_reads[OF this]]
  show ?thesis using assms(1,2) OpenRouter
    by (simp add: provider_defs resolve_key_def Let_def)
next
  case Groq
  with assms(6) have "chat_text_absent result" by simp
  from try_catch_fallback[of h _ content_text result chat_text, OF assms(4) assms(5) chat_text_absent_reads[OF this]]
  show ?thesis using assms(1,2) Groq
    by (simp add: provider_defs resolve_key_def Let_def)
next
  case OpenAILike
  with assms(6) have "chat_text_absent result" by simp
  from try_catch_fallback[of h _ content_text result chat_text, OF assms(4) assms(5) chat_text_absent_reads[OF this]]
  show ?thesis using assms(1,2,3) OpenAILike
    by (auto simp: provider_defs resolve_key_def Let_def)
qed

theorem fallback_on_missing_text_witness:
  "apiKey keyed_config = Some ''sk-test''
   \<and> JSON_parse silent_host [] = Inr (Obj [(''choices'', Arr [])])
   \<and> text_absent OpenAI (Obj [(''choices'', Arr [])])
   \<and> generateResponse OpenAI silent_host ''hi'' keyed_config =
       Inr ([\<lparr>url = ''https://api.openai.com/v1/chat/completions'',
              http_method = ''post'',
              headers = [(''Authorization'', ''Bearer sk-test''),
                         (''Content-Type'', ''application/json'')],
              body = ChatCompletion ''gpt-3.5-turbo''
                       [\<lparr>role = ''user'', content = Str ''hi''\<rparr>] (7 / 10) 100\<rparr>],
            ok_response (Str ''No response from OpenAI.''))"
proof -
  have k: "apiKey keyed_config = Some ''sk-test''" "''sk-test'' \<noteq> []"
    by (simp_all add: keyed_config_def no_config_def)
  have b: "OpenAI = OpenAILike \<longrightarrow> (\<exists>base. baseURL keyed_config = Some base \<and> base \<noteq> [])"
    by simp
  have f: "\<And>req. fetch silent_host req = Inr []"
    by (simp add: silent_host_def stub_host_def)
  have p: "JSON_parse silent_host [] = Inr (Obj [(''choices'', Arr [])])"
    by (simp add: silent_host_def stub_host_def)
  have t: "text_absent OpenAI (Obj [(''choices'', Arr [])])"
    by simp
  from fallback_on_missing_text[OF k b f p t, of "''hi''"] k p t show ?thesis
    by (auto simp: provider_defs resolve_key_def bearer_headers_def or_str_def or_num_def
        keyed_config_def no_config_def Let_def)
qed

theorem fallback_generic_text_counterexample:
  "generateResponse OpenAILike silent_host ''hi'' context_config =
     Inr ([\<lparr>url = ''https://llm.example/chat/completions'',
            http_method = ''post'',
            headers = [(''Authorization'', ''Bearer sk-test''),
                       (''Content-Type'', ''application/json'')],
            body = ChatCompletion ''gpt-3.5-turbo'' context_messages (7 / 10) 100\<rparr>],
          ok_response (Str ''No response from API.''))
   \<and> ok_response (Str ''No response from API.'') \<noteq>
       ok_response (Str (''No response from '' @ ''OpenAILike'' @ ''.''))"
  by (simp add: provider_defs exchange_defs sample_defs)

text \<open>Beside the amended C5: when \<^verbatim>\<open>choices\<close> itself is missing, the unguarded index
  \<^verbatim>\<open>result.choices[0]\<close> throws inside the \<^verbatim>\<open>try\<close>, and the answer is status 500.\<close>

lemma missing_choices_is_500:
  "generateResponse OpenAI bare_host ''hi'' keyed_config =
     Inr ([\<lparr>url = ''https://api.openai.com/v1/chat/completions'',
            http_method = ''post'',
            headers = [(''Authorization'', ''Bearer sk-test''),
                       (''Content-Type'', ''application/json'')],
            body = ChatCompletion ''gpt-3.5-turbo''
                     [\<lparr>role = ''user'', content = Str ''hi''\<rparr>] (7 / 10) 100\<rparr>],
          error_response 500 ''OpenAIProvider error: Cannot read properties (reading 0)'')"
  by (simp add: provider_defs exchange_defs sample_defs)

text \<open>Beside the amended C9: names that a plain object inherits pass for registered.\<close>

lemma inherited_names_pass_for_registered:
  "createAgent new_GASAgent (Str ''constructor'') ''OpenAI'' no_config =
     Inl (Error ''Agent 'constructor' already exists.'')
   \<and> (\<exists>w. createAgent new_GASAgent (Str ''bot'') ''toString'' no_config = Inr (0, w))"
  by (simp add: createAgent_def new_GASAgent_def providers_def inherited_def
      object_prototype_keys_def Let_def)

subsection \<open>Providers: what is put on the wire\<close>

text \<open>
  C1. A chat-completion request should carry \<^verbatim>\<open>config.messages\<close> when the config has
  them. Evaluated on a config holding a system message and a user message: the
  custom-endpoint provider sends both messages, while the OpenAI, DeepSeek, OpenRouter
  and Groq providers send only the user message built from \<^verbatim>\<open>input\<close>, whatever the host.
\<close>

theorem request_messages_at_context_config:
  "messages context_config = Some context_messages
   \<and> sent_messages (generateResponse OpenAILike h ''hi'' context_config) = [Some context_messages]
   \<and> sent_messages (generateResponse OpenAI h ''hi'' context_config) =
       [Some [\<lparr>role = ''user'', content = Str ''hi''\<rparr>]]
   \<and> sent_messages (generateResponse DeepSeek h ''hi'' context_config) =
       [Some [\<lparr>role = ''user'', content = Str ''hi''\<rparr>]]
   \<and> sent_messages (generateResponse OpenRouter h ''hi'' context_config) =
       [Some [\<lparr>role = ''user'', content = Str ''hi''\<rparr>]]
   \<and> sent_messages (generateResponse Groq h ''hi'' context_config) =
       [Some [\<lparr>role = ''user'', content = Str ''hi''\<rparr>]]
   \<and> [\<lparr>role = ''user'', content = Str ''hi''\<rparr>] \<noteq> context_messages"
  by (simp add: provider_defs resolve_key_def context_config_def context_messages_def
      keyed_config_def no_config_def Let_def)

text \<open>
  C3. The request should carry the configured temperature and token limit whenever they
  are present, zero included. Evaluated on a config that sets both to zero: every
  provider sends 0.7 and 100 instead, whatever the host.
\<close>

theorem request_sampling_at_zero_config:
  "temperature zero_config = Some 0 \<and> max_tokens zero_config = Some 0
   \<and> sent_sampling (generateResponse kind h ''hi'' zero_config) = [(7 / 10, 100)]"
  by (cases kind)
     (simp_all add: provider_defs resolve_key_def or_num_def zero_config_def
        keyed_config_def no_config_def Let_def)

end
